theory Spec2Isabelle
  imports Complex_Main "HOL-Library.Finite_Map"
begin

section \<open>The differ: values, changes and actions\<close>

subsection \<open>Generic JSON values\<close>

text \<open>
  \<^verbatim>\<open>unmarshalGeneric\<close> decodes a raw JSON message into Go's generic
  \<^verbatim>\<open>interface{}\<close>: \<^verbatim>\<open>nil\<close> for a missing message or for JSON
  \<^verbatim>\<open>null\<close>, \<^verbatim>\<open>bool\<close>, \<^verbatim>\<open>float64\<close>, \<^verbatim>\<open>string\<close>,
  \<^verbatim>\<open>[]interface{}\<close> and \<^verbatim>\<open>map[string]interface{}\<close>. A decoded number is
  a finite \<^verbatim>\<open>float64\<close> (the decoder rejects anything else), so it is represented
  by the rational it denotes; an array keeps the order of its elements; an object is a
  finite map, which has no order.
\<close>

datatype json =
    JNull
  | JBool bool
  | JNumber rat
  | JString string
  | JArray "json list"
  | JObject "(string, json) fmap"

text \<open>
  \<^verbatim>\<open>reflect.DeepEqual\<close> on two such values: equal dynamic types, then
  \<^verbatim>\<open>==\<close> on booleans, numbers and strings, slices of equal length compared
  element by element in order, maps with the same keys and deeply equal values under each
  key. On \<^typ>\<open>json\<close> that is equality of the values.
\<close>

definition DeepEqual :: "json \<Rightarrow> json \<Rightarrow> bool" where
  "DeepEqual x y \<longleftrightarrow> x = y"

subsection \<open>Actions\<close>

text \<open>
  Modelled from the spec: the type \<^verbatim>\<open>plans.Action\<close> is declared outside the
  sources at hand. Its values are the actions the Change data model lists; the differ
  itself names \<^verbatim>\<open>plans.NoOp\<close>, \<^verbatim>\<open>plans.Create\<close>,
  \<^verbatim>\<open>plans.Update\<close> and \<^verbatim>\<open>plans.Delete\<close>.
\<close>

datatype Action = NoOp | Create | Update | Delete | Replace | Read

subsection \<open>Change\<close>

text \<open>
  The struct \<^verbatim>\<open>Change\<close>. The type of \<^verbatim>\<open>ReplacePaths\<close>
  (\<^verbatim>\<open>replace.ForcesReplacement\<close>) is declared outside the sources at hand and is
  left as the type parameter \<open>'r\<close>.
\<close>

record 'r Change =
  BeforeExplicit :: bool
  AfterExplicit :: bool
  Before :: json
  After :: json
  Unknown :: json
  BeforeSensitive :: json
  AfterSensitive :: json
  ReplacePaths :: 'r

text \<open>
  Modelled from the spec: the methods \<^verbatim>\<open>isBeforeSensitive\<close> and
  \<^verbatim>\<open>isAfterSensitive\<close> of \<^verbatim>\<open>Change\<close> are declared outside the
  sources at hand. Following the field comments (\<^verbatim>\<open>BeforeSensitive\<close>
  ``references whether the Before value is sensitive'', \<^verbatim>\<open>AfterSensitive\<close>
  likewise for the After value) each one reads the sensitivity mark of its own side; how a
  mark is read as a boolean is the parameter \<open>sensitive\<close>.
\<close>

definition isBeforeSensitive :: "(json \<Rightarrow> bool) \<Rightarrow> 'r Change \<Rightarrow> bool" where
  "isBeforeSensitive sensitive change = sensitive (BeforeSensitive change)"

definition isAfterSensitive :: "(json \<Rightarrow> bool) \<Rightarrow> 'r Change \<Rightarrow> bool" where
  "isAfterSensitive sensitive change = sensitive (AfterSensitive change)"

definition calculateChange :: "(json \<Rightarrow> bool) \<Rightarrow> 'r Change \<Rightarrow> Action" where
  "calculateChange sensitive change =
     (if (Before change = JNull \<and> \<not> BeforeExplicit change)
         \<and> (After change \<noteq> JNull \<or> AfterExplicit change) then Create
      else if (After change = JNull \<and> \<not> AfterExplicit change)
         \<and> (Before change \<noteq> JNull \<or> BeforeExplicit change) then Delete
      else if DeepEqual (Before change) (After change)
         \<and> AfterExplicit change = BeforeExplicit change
         \<and> isAfterSensitive sensitive change = isBeforeSensitive sensitive change then NoOp
      else Update)"

definition getDefaultActionForIteration :: "'r Change \<Rightarrow> Action" where
  "getDefaultActionForIteration change =
     (if Before change = JNull \<and> After change = JNull then NoOp
      else if Before change = JNull then Create
      else if After change = JNull then Delete
      else NoOp)"

definition compareActions :: "Action \<Rightarrow> Action \<Rightarrow> Action" where
  "compareActions current next =
     (if next = NoOp then current
      else if current \<noteq> next then Update
      else current)"

text \<open>
  \<^verbatim>\<open>asDiff\<close> hands three things to \<^verbatim>\<open>computed.NewDiff\<close>: the renderer,
  the action of \<^verbatim>\<open>calculateChange\<close>, and the boolean
  \<^verbatim>\<open>change.ReplacePaths.ForcesReplacement()\<close>. Both callees are declared outside
  the sources at hand and are parameters here.
\<close>

definition asDiff ::
  "('d \<Rightarrow> Action \<Rightarrow> bool \<Rightarrow> 'diff) \<Rightarrow> ('r \<Rightarrow> bool) \<Rightarrow> (json \<Rightarrow> bool)
     \<Rightarrow> 'r Change \<Rightarrow> 'd \<Rightarrow> 'diff" where
  "asDiff NewDiff ForcesReplacement sensitive change renderer =
     NewDiff renderer (calculateChange sensitive change)
       (ForcesReplacement (ReplacePaths change))"

text \<open>
  One reading of a sensitivity mark, used where a concrete reading is needed: the whole
  value is sensitive when the mark is the boolean \<^verbatim>\<open>true\<close>; a list or a map of
  marks describes the parts of the value, not the value as a whole.
\<close>

definition boolMark :: "json \<Rightarrow> bool" where
  "boolMark mark \<longleftrightarrow> mark = JBool True"

section \<open>The test runner: variables of a configuration\<close>

text \<open>
  \<^verbatim>\<open>configs.Variable\<close>, \<^verbatim>\<open>configs.Module\<close>, \<^verbatim>\<open>configs.Config\<close>
  and \<^verbatim>\<open>terraform.InputValue\<close> are declared outside the sources at hand. The
  records below hold the fields \<^verbatim>\<open>AddVariablesToConfig\<close> touches; every other
  field lives in the extension part of the record, which the function carries along
  unchanged. A variable map is modelled by its contents, from names to definitions.
\<close>

record ('ty, 'rng) Variable =
  Name :: string
  Type :: 'ty
  ConstraintType :: 'ty
  DeclRange :: 'rng

record 'var Module =
  Variables :: "string \<rightharpoonup> 'var"

record 'm Config =
  Module :: 'm

record ('v, 'sr) InputValue =
  Value :: 'v
  SourceRange :: 'sr

text \<open>
  The definition built for a missing variable:
  \<^verbatim>\<open>&configs.Variable{Name: name, Type: value.Value.Type(), ConstraintType:
  value.Value.Type(), DeclRange: value.SourceRange.ToHCL()}\<close>. The methods
  \<^verbatim>\<open>Type\<close> and \<^verbatim>\<open>ToHCL\<close> are parameters; \<open>zero\<close> stands for the
  zero values of the fields the literal leaves out.
\<close>

definition newVariable ::
  "('v \<Rightarrow> 'ty) \<Rightarrow> ('sr \<Rightarrow> 'rng) \<Rightarrow> 'z \<Rightarrow> string \<Rightarrow> ('v, 'sr, 'x) InputValue_scheme
     \<Rightarrow> ('ty, 'rng, 'z) Variable_scheme" where
  "newVariable TypeOf ToHCL zero name value =
     \<lparr>Name = name, Type = TypeOf (Value value), ConstraintType = TypeOf (Value value),
      DeclRange = ToHCL (SourceRange value), \<dots> = zero\<rparr>"

text \<open>
  The loop \<^verbatim>\<open>for name, value := range variables\<close>. Go visits the entries of a
  map in no fixed order; the list is the order of one visit. The callers build every entry
  as a pointer to a fresh \<^verbatim>\<open>terraform.InputValue\<close>, so no entry is
  \<^verbatim>\<open>nil\<close>.
\<close>

fun addVariables ::
  "('v \<Rightarrow> 'ty) \<Rightarrow> ('sr \<Rightarrow> 'rng) \<Rightarrow> 'z
     \<Rightarrow> (string \<times> ('v, 'sr, 'x) InputValue_scheme) list
     \<Rightarrow> (string \<rightharpoonup> ('ty, 'rng, 'z) Variable_scheme)
     \<Rightarrow> (string \<rightharpoonup> ('ty, 'rng, 'z) Variable_scheme)" where
  "addVariables TypeOf ToHCL zero [] vars = vars"
| "addVariables TypeOf ToHCL zero ((name, value) # rest) vars =
     (if vars name \<noteq> None then addVariables TypeOf ToHCL zero rest vars
      else addVariables TypeOf ToHCL zero rest
             (vars(name \<mapsto> newVariable TypeOf ToHCL zero name value)))"

text \<open>
  \<^verbatim>\<open>AddVariablesToConfig\<close> copies the variable map into
  \<^verbatim>\<open>currentVars\<close>, extends the map of the configuration, and returns a closure
  that stores \<^verbatim>\<open>currentVars\<close> back into \<^verbatim>\<open>config.Module.Variables\<close>.
  The model returns the configuration after the loop together with the closure, a function
  on the configuration as it stands when the closure is called.
\<close>

definition AddVariablesToConfig ::
  "('v \<Rightarrow> 'ty) \<Rightarrow> ('sr \<Rightarrow> 'rng) \<Rightarrow> 'z
     \<Rightarrow> ((('ty, 'rng, 'z) Variable_scheme, 'm) Module_scheme, 'c) Config_scheme
     \<Rightarrow> (string \<times> ('v, 'sr, 'x) InputValue_scheme) list
     \<Rightarrow> ((('ty, 'rng, 'z) Variable_scheme, 'm) Module_scheme, 'c) Config_scheme
        \<times> (((('ty, 'rng, 'z) Variable_scheme, 'm) Module_scheme, 'c) Config_scheme
           \<Rightarrow> ((('ty, 'rng, 'z) Variable_scheme, 'm) Module_scheme, 'c) Config_scheme)" where
  "AddVariablesToConfig TypeOf ToHCL zero config variables =
     (let currentVars = Variables (Module config);
          config' = config\<lparr>Module := (Module config)
                      \<lparr>Variables := addVariables TypeOf ToHCL zero variables
                                      (Variables (Module config))\<rparr>\<rparr>
      in (config', \<lambda>c. c\<lparr>Module := (Module c)\<lparr>Variables := currentVars\<rparr>\<rparr>))"

text \<open>A small configuration and a set of input values, for concrete runs.\<close>

definition exampleConfig :: "(string, nat) Variable Module Config" where
  "exampleConfig = \<lparr>Module = \<lparr>Variables =
      [''region'' \<mapsto> \<lparr>Name = ''region'', Type = ''string'', ConstraintType = ''any'',
                       DeclRange = 3\<rparr>]\<rparr>\<rparr>"

definition exampleInputs :: "(string \<times> (string, nat) InputValue) list" where
  "exampleInputs = [(''region'', \<lparr>Value = ''number'', SourceRange = 10\<rparr>),
                    (''zone'', \<lparr>Value = ''string'', SourceRange = 11\<rparr>)]"

section \<open>The test runner: executing the run blocks of a file\<close>

subsection \<open>Statuses, runs and the runner\<close>

text \<open>
  The type \<^verbatim>\<open>moduletest.Status\<close> is declared outside the sources at hand. The
  runner names \<^verbatim>\<open>moduletest.Skip\<close>, \<^verbatim>\<open>moduletest.Pass\<close> and
  \<^verbatim>\<open>moduletest.Error\<close>; its comments call a run block that was never touched
  pending; \<open>Fail\<close> stands for a run block whose assertions failed. The method
  \<^verbatim>\<open>Merge\<close> of a status is declared outside the sources as well and is the
  parameter \<open>Merge\<close> of the functions below.
\<close>

datatype Status = Pending | Skip | Pass | Fail | Error

text \<open>
  \<^verbatim>\<open>Stopped\<close> and \<^verbatim>\<open>Cancelled\<close> are fields of the suite runner. They
  are set by \<^verbatim>\<open>Stop()\<close> and \<^verbatim>\<open>Cancel()\<close>, which the command calls from
  another goroutine when the user interrupts; what the runner finds in them when it reads
  them is an input of the model.
\<close>

record Interrupt =
  Stopped :: bool
  Cancelled :: bool

text \<open>
  Of a run block the loop reads the name, the status, whether an alternate module is under
  test (\<^verbatim>\<open>run.Config.ConfigUnderTest\<close>) and, if so, the source of that module as
  a string (\<^verbatim>\<open>run.Config.Module.Source.String()\<close>); the clean-up reads
  its index in the file.
\<close>

record 'cfg Run =
  RunName :: string
  RunStatus :: Status
  ConfigUnderTest :: "'cfg option"
  ModuleSource :: string
  Index :: int

record ('cfg, 'st) TestFileState =
  Run :: "'cfg Run option"
  State :: 'st

text \<open>
  What the runner does to the outside is kept in a log: \<open>Dispatched\<close> records a call
  of \<^verbatim>\<open>runner.run\<close> for the named run block, \<open>Reported\<close> a call of
  \<^verbatim>\<open>runner.Suite.View.Run(run, file, moduletest.Complete, 0)\<close> with the status
  the run block has at that moment, \<open>Destroyed\<close> a call of
  \<^verbatim>\<open>runner.destroy\<close> with the named run block, and \<open>DestroySummary\<close> a
  call of \<^verbatim>\<open>runner.Suite.View.DestroySummary\<close> with the run block named, or
  with \<^verbatim>\<open>nil\<close>.
\<close>

datatype Event =
    Dispatched string
  | Reported string Status
  | Destroyed string
  | DestroySummary "string option"

text \<open>
  \<open>World\<close> stands for everything else a run block can read and change: the providers
  and the infrastructure behind them, the prior states, the diagnostics.
\<close>

record ('cfg, 'st, 'w) TestFileRunner =
  RelevantStates :: "string \<rightharpoonup> ('cfg, 'st) TestFileState"
  World :: 'w
  Log :: "Event list"

record 'cfg File =
  Runs :: "'cfg Run list"
  FileStatus :: Status

datatype error = NilDereference

datatype 'a Flow = Return 'a | Continue 'a

definition MainStateIdentifier :: string where
  "MainStateIdentifier = []"

text \<open>
  \<^verbatim>\<open>runner.run\<close> validates, plans and applies one run block against the providers.
  It is a parameter: from the world, the run block, the tracked state and the configuration
  it gives the status the run block ends with, the state, whether the state was updated,
  and the world afterwards.
\<close>

type_synonym ('cfg, 'st, 'w) run_block =
  "'w \<Rightarrow> 'cfg Run \<Rightarrow> 'st \<Rightarrow> 'cfg \<Rightarrow> Status \<times> 'st \<times> bool \<times> 'w"

subsection \<open>The loop of Test\<close>

text \<open>
  The two branches that mark a run block as skipped, print it and \<^verbatim>\<open>continue\<close>.
\<close>

definition skipRun ::
  "'cfg Run \<Rightarrow> Status \<Rightarrow> ('cfg, 'st, 'w) TestFileRunner
     \<Rightarrow> ('cfg Run \<times> Status \<times> ('cfg, 'st, 'w) TestFileRunner) Flow" where
  "skipRun run fileStatus runner =
     Continue (run\<lparr>RunStatus := Skip\<rparr>, fileStatus,
               runner\<lparr>Log := Log runner @ [Reported (RunName run) Skip]\<rparr>)"

text \<open>
  The end of the loop body, from the call of \<^verbatim>\<open>runner.run\<close> on. Reading
  \<^verbatim>\<open>runner.RelevantStates[key].State\<close> under a key with no entry dereferences a
  nil pointer.
\<close>

definition executeRun ::
  "(Status \<Rightarrow> Status \<Rightarrow> Status) \<Rightarrow> ('cfg, 'st, 'w) run_block \<Rightarrow> string \<Rightarrow> 'cfg
     \<Rightarrow> 'cfg Run \<Rightarrow> Status \<Rightarrow> ('cfg, 'st, 'w) TestFileRunner
     \<Rightarrow> error + ('cfg Run \<times> Status \<times> ('cfg, 'st, 'w) TestFileRunner) Flow" where
  "executeRun Merge runBlock key config run fileStatus runner =
     (case RelevantStates runner key of
        None \<Rightarrow> Inl NilDereference
      | Some tracked \<Rightarrow>
          (case runBlock (World runner) run (State tracked) config of
             (status, state, updatedState, world) \<Rightarrow>
               let run' = run\<lparr>RunStatus := status\<rparr>;
                   states = (if updatedState
                             then (RelevantStates runner)
                                    (key \<mapsto> tracked\<lparr>State := state, Run := Some run'\<rparr>)
                             else RelevantStates runner)
               in Inr (Continue (run', Merge fileStatus status,
                     runner\<lparr>RelevantStates := states, World := world,
                            Log := Log runner
                              @ [Dispatched (RunName run), Reported (RunName run) status]\<rparr>))))"

text \<open>
  One pass through the body of \<^verbatim>\<open>for _, run := range file.Runs\<close>; \<open>seen\<close>
  holds the two flags as read at the head of this pass.
\<close>

definition Test_iteration ::
  "(Status \<Rightarrow> Status \<Rightarrow> Status) \<Rightarrow> ('cfg, 'st, 'w) run_block \<Rightarrow> 'st \<Rightarrow> 'cfg
     \<Rightarrow> Interrupt \<Rightarrow> 'cfg Run \<Rightarrow> Status \<Rightarrow> ('cfg, 'st, 'w) TestFileRunner
     \<Rightarrow> error + ('cfg Run \<times> Status \<times> ('cfg, 'st, 'w) TestFileRunner) Flow" where
  "Test_iteration Merge runBlock NewState suiteConfig seen run fileStatus runner =
     (if Cancelled seen then Inr (Return (run, Merge fileStatus Error, runner))
      else if Stopped seen then Inr (skipRun run fileStatus runner)
      else if fileStatus = Error then Inr (skipRun run fileStatus runner)
      else (case ConfigUnderTest run of
        None \<Rightarrow> executeRun Merge runBlock MainStateIdentifier suiteConfig run fileStatus runner
      | Some config \<Rightarrow>
          let key = ModuleSource run in
          if key = MainStateIdentifier
          then Inr (Continue (run\<lparr>RunStatus := Error\<rparr>, Error, runner))
          else executeRun Merge runBlock key config run fileStatus
                 (if RelevantStates runner key = None
                  then runner\<lparr>RelevantStates := (RelevantStates runner)
                         (key \<mapsto> \<lparr>Run = None, State = NewState\<rparr>)\<rparr>
                  else runner)))"

text \<open>
  The loop over the run blocks, from the \<open>i\<close>-th on; \<open>seen j\<close> is what the head of
  the pass for the \<open>j\<close>-th run block reads. A \<^verbatim>\<open>return\<close> leaves the remaining
  run blocks as they are.
\<close>

fun Test_runs ::
  "(Status \<Rightarrow> Status \<Rightarrow> Status) \<Rightarrow> ('cfg, 'st, 'w) run_block \<Rightarrow> 'st \<Rightarrow> 'cfg
     \<Rightarrow> (nat \<Rightarrow> Interrupt) \<Rightarrow> nat \<Rightarrow> 'cfg Run list \<Rightarrow> Status
     \<Rightarrow> ('cfg, 'st, 'w) TestFileRunner
     \<Rightarrow> error + ('cfg Run list \<times> Status \<times> ('cfg, 'st, 'w) TestFileRunner)" where
  "Test_runs Merge runBlock NewState suiteConfig seen i [] fileStatus runner =
     Inr ([], fileStatus, runner)"
| "Test_runs Merge runBlock NewState suiteConfig seen i (run # rest) fileStatus runner =
     (case Test_iteration Merge runBlock NewState suiteConfig (seen i) run fileStatus runner of
        Inl e \<Rightarrow> Inl e
      | Inr (Return (run', fileStatus', runner')) \<Rightarrow> Inr (run' # rest, fileStatus', runner')
      | Inr (Continue (run', fileStatus', runner')) \<Rightarrow>
          (case Test_runs Merge runBlock NewState suiteConfig seen (Suc i) rest
                  fileStatus' runner' of
             Inl e \<Rightarrow> Inl e
           | Inr (rest', fileStatus'', runner'') \<Rightarrow>
               Inr (run' # rest', fileStatus'', runner'')))"

text \<open>
  The number of passes, from the \<open>i\<close>-th on, that the loop goes through before one
  reads \<^verbatim>\<open>Cancelled\<close> as set: all of them when none does.
\<close>

fun passesBeforeCancel :: "(nat \<Rightarrow> Interrupt) \<Rightarrow> nat \<Rightarrow> 'a list \<Rightarrow> nat" where
  "passesBeforeCancel seen i [] = 0"
| "passesBeforeCancel seen i (run # rest) =
     (if Cancelled (seen i) then 0 else Suc (passesBeforeCancel seen (Suc i) rest))"

text \<open>
  \<^verbatim>\<open>Test\<close>: the file is first marked as skipped, and as passed when it has no run
  blocks; then the run blocks are executed. The variables and the diagnostics of the file
  are part of the world.
\<close>

definition Test ::
  "(Status \<Rightarrow> Status \<Rightarrow> Status) \<Rightarrow> ('cfg, 'st, 'w) run_block \<Rightarrow> 'st \<Rightarrow> 'cfg
     \<Rightarrow> (nat \<Rightarrow> Interrupt) \<Rightarrow> 'cfg File \<Rightarrow> ('cfg, 'st, 'w) TestFileRunner
     \<Rightarrow> error + ('cfg File \<times> ('cfg, 'st, 'w) TestFileRunner)" where
  "Test Merge runBlock NewState suiteConfig seen file runner =
     (let skipped = Merge (FileStatus file) Skip;
          fileStatus = (if length (Runs file) = 0 then Merge skipped Pass else skipped)
      in case Test_runs Merge runBlock NewState suiteConfig seen 0 (Runs file)
                fileStatus runner of
           Inl e \<Rightarrow> Inl e
         | Inr (runs, fileStatus', runner') \<Rightarrow>
             Inr (file\<lparr>Runs := runs, FileStatus := fileStatus'\<rparr>, runner'))"

subsection \<open>Waiting for an operation\<close>









subsection \<open>Cleaning up\<close>








subsection \<open>Concrete runs\<close>

text \<open>
  An instance of \<open>Merge\<close> for concrete runs: the more severe of the two statuses. It does
  what the comments of \<^verbatim>\<open>Test\<close> expect of \<^verbatim>\<open>Merge\<close>: merging
  \<^verbatim>\<open>Skip\<close> marks an untouched file as skipped, merging \<^verbatim>\<open>Pass\<close> marks a
  skipped file as passed, merging \<^verbatim>\<open>Error\<close> marks any file as errored.
\<close>

fun severity :: "Status \<Rightarrow> nat" where
  "severity Pending = 0"
| "severity Skip = 1"
| "severity Pass = 2"
| "severity Fail = 3"
| "severity Error = 4"

definition mergeWorst :: "Status \<Rightarrow> Status \<Rightarrow> Status" where
  "mergeWorst status next = (if severity status < severity next then next else status)"

text \<open>A run block whose operation ends in an error and leaves the state alone.\<close>

definition failingRun :: "(unit, unit, unit) run_block" where
  "failingRun world run state config = (Error, state, False, world)"



definition cancelledAfterFirst :: "nat \<Rightarrow> Interrupt" where
  "cancelledAfterFirst i = \<lparr>Stopped = False, Cancelled = (0 < i)\<rparr>"

definition cancelledAfterSecond :: "nat \<Rightarrow> Interrupt" where
  "cancelledAfterSecond i = \<lparr>Stopped = False, Cancelled = (1 < i)\<rparr>"


definition firstRun :: "unit Run" where
  "firstRun = \<lparr>RunName = ''first'', RunStatus = Pending, ConfigUnderTest = None,
               ModuleSource = [], Index = 0\<rparr>"

definition secondRun :: "unit Run" where
  "secondRun = \<lparr>RunName = ''second'', RunStatus = Pending, ConfigUnderTest = None,
                ModuleSource = [], Index = 1\<rparr>"

definition thirdRun :: "unit Run" where
  "thirdRun = \<lparr>RunName = ''third'', RunStatus = Pending, ConfigUnderTest = None,
               ModuleSource = [], Index = 2\<rparr>"

definition freshRunner :: "(unit, unit, unit) TestFileRunner" where
  "freshRunner = \<lparr>RelevantStates = [MainStateIdentifier \<mapsto> \<lparr>Run = None, State = ()\<rparr>],
                  World = (), Log = []\<rparr>"






section \<open>Properties of the differ\<close>

lemma calculateChange_cases:
  "calculateChange sensitive change \<in> {Create, Delete, NoOp, Update}"
  by (simp add: calculateChange_def)

text \<open>
  C9. For all actions \<open>a\<close> and \<open>b\<close>: \<open>compareActions a NoOp = a\<close>,
  \<open>compareActions a a = a\<close>, and \<open>compareActions a b = Update\<close> whenever
  \<open>a \<noteq> b\<close> and \<open>b \<noteq> NoOp\<close>.
\<close>

theorem compareActions_laws:
  "compareActions a NoOp = a
   \<and> compareActions a a = a
   \<and> (a \<noteq> b \<and> b \<noteq> NoOp \<longrightarrow> compareActions a b = Update)"
  by (simp add: compareActions_def)

theorem compareActions_laws_witness:
  "Create \<noteq> Delete \<and> Delete \<noteq> NoOp
   \<and> compareActions Create NoOp = Create
   \<and> compareActions Create Create = Create
   \<and> compareActions Create Delete = Update"
  using compareActions_laws [of Create Delete] by simp

subsection \<open>What calculateChange depends on\<close>

lemma calculateChange_fields:
  assumes "Before c = Before c'" and "After c = After c'"
    and "BeforeExplicit c = BeforeExplicit c'" and "AfterExplicit c = AfterExplicit c'"
    and "BeforeSensitive c = BeforeSensitive c'" and "AfterSensitive c = AfterSensitive c'"
  shows "calculateChange sensitive c = calculateChange sensitive c'"
  unfolding calculateChange_def isBeforeSensitive_def isAfterSensitive_def assms ..

lemma calculateChange_NoOp_iff:
  "calculateChange sensitive change = NoOp \<longleftrightarrow>
     Before change = After change \<and> AfterExplicit change = BeforeExplicit change
     \<and> isAfterSensitive sensitive change = isBeforeSensitive sensitive change"
  by (auto simp add: calculateChange_def DeepEqual_def)

subsection \<open>Unchanged values\<close>

text \<open>
  C1. A Change whose before value equals its after value, whose explicit flags are equal on
  both sides and whose sensitivity is the same on both sides gets the action NoOp from
  \<^verbatim>\<open>calculateChange\<close>. The replace paths play no part: the statement holds
  whatever \<^verbatim>\<open>ReplacePaths\<close> contains, so in particular when no force-replace
  attribute changed.
\<close>

theorem calculateChange_unchanged_NoOp:
  assumes "Before change = After change"
    and "BeforeExplicit change = AfterExplicit change"
    and "isBeforeSensitive sensitive change = isAfterSensitive sensitive change"
  shows "calculateChange sensitive change = NoOp"
  using assms by (auto simp add: calculateChange_def DeepEqual_def)

theorem calculateChange_unchanged_NoOp_witness:
  "calculateChange boolMark
     \<lparr>BeforeExplicit = True, AfterExplicit = True,
      Before = JArray [JString ''a'', JNumber 1], After = JArray [JString ''a'', JNumber 1],
      Unknown = JBool False, BeforeSensitive = JBool True, AfterSensitive = JBool True,
      ReplacePaths = [[JString ''name'']]\<rparr> = NoOp"
  using calculateChange_unchanged_NoOp [of
      "\<lparr>BeforeExplicit = True, AfterExplicit = True,
        Before = JArray [JString ''a'', JNumber 1], After = JArray [JString ''a'', JNumber 1],
        Unknown = JBool False, BeforeSensitive = JBool True, AfterSensitive = JBool True,
        ReplacePaths = [[JString ''name'']]\<rparr>" boolMark]
  by (simp add: isBeforeSensitive_def isAfterSensitive_def)

subsection \<open>Create and Delete\<close>

text \<open>
  \<^verbatim>\<open>getDefaultActionForIteration\<close>, the starting action for a collection or a
  block before its children are folded in with \<^verbatim>\<open>compareActions\<close>, looks at the
  two values only. With the before value absent and implicit and the after value absent
  but explicit it returns NoOp, not Create; with the after value absent and implicit and the
  before value absent but explicit it returns NoOp, not Delete.
\<close>

theorem getDefaultActionForIteration_explicit_counterexample:
  "getDefaultActionForIteration
     \<lparr>BeforeExplicit = False, AfterExplicit = True,
      Before = JNull, After = JNull,
      Unknown = JBool False, BeforeSensitive = JBool False, AfterSensitive = JBool False,
      ReplacePaths = ([] :: json list list)\<rparr> = NoOp
   \<and> getDefaultActionForIteration
     \<lparr>BeforeExplicit = True, AfterExplicit = False,
      Before = JNull, After = JNull,
      Unknown = JBool False, BeforeSensitive = JBool False, AfterSensitive = JBool False,
      ReplacePaths = ([] :: json list list)\<rparr> = NoOp"
  by (simp add: getDefaultActionForIteration_def)

lemma getDefaultActionForIteration_Create:
  "Before change = JNull \<Longrightarrow> After change \<noteq> JNull
     \<Longrightarrow> getDefaultActionForIteration change = Create"
  by (simp add: getDefaultActionForIteration_def)

lemma getDefaultActionForIteration_Delete:
  "After change = JNull \<Longrightarrow> Before change \<noteq> JNull
     \<Longrightarrow> getDefaultActionForIteration change = Delete"
  by (simp add: getDefaultActionForIteration_def)

lemma getDefaultActionForIteration_otherwise:
  "(Before change = JNull \<longleftrightarrow> After change = JNull)
     \<Longrightarrow> getDefaultActionForIteration change = NoOp"
  by (auto simp add: getDefaultActionForIteration_def)

lemma getDefaultActionForIteration_flags:
  "getDefaultActionForIteration (change\<lparr>BeforeExplicit := b, AfterExplicit := a\<rparr>)
     = getDefaultActionForIteration change"
  by (simp add: getDefaultActionForIteration_def)

lemma calculateChange_Create:
  assumes "Before change = JNull" and "\<not> BeforeExplicit change"
    and "After change \<noteq> JNull \<or> AfterExplicit change"
  shows "calculateChange sensitive change = Create"
  using assms by (simp add: calculateChange_def)

lemma calculateChange_Delete:
  assumes "After change = JNull" and "\<not> AfterExplicit change"
    and "Before change \<noteq> JNull \<or> BeforeExplicit change"
  shows "calculateChange sensitive change = Delete"
proof -
  have "\<not> (Before change = JNull \<and> \<not> BeforeExplicit change)"
    using assms(3) by blast
  then show ?thesis
    using assms(1) assms(2) by (simp add: calculateChange_def)
qed

text \<open>
  C2, as amended. \<^verbatim>\<open>calculateChange\<close> returns Create for every Change whose
  before value is absent and implicit while its after value is present or explicit, and
  Delete for every Change whose after value is absent and implicit while its before value
  is present or explicit. \<^verbatim>\<open>getDefaultActionForIteration\<close> does not read the
  explicit flags: it returns Create exactly when the before value is absent and the after
  value is present, Delete exactly when the after value is absent and the before value is
  present, and NoOp in every other case, so also when both values are absent and one of
  them is explicit.
\<close>

theorem Create_Delete_by_function:
  "(Before change = JNull \<and> \<not> BeforeExplicit change
      \<and> (After change \<noteq> JNull \<or> AfterExplicit change)
      \<longrightarrow> calculateChange sensitive change = Create)
   \<and> (After change = JNull \<and> \<not> AfterExplicit change
      \<and> (Before change \<noteq> JNull \<or> BeforeExplicit change)
      \<longrightarrow> calculateChange sensitive change = Delete)
   \<and> getDefaultActionForIteration change =
       (if Before change = JNull \<and> After change \<noteq> JNull then Create
        else if After change = JNull \<and> Before change \<noteq> JNull then Delete
        else NoOp)
   \<and> getDefaultActionForIteration (change\<lparr>BeforeExplicit := b, AfterExplicit := a\<rparr>)
       = getDefaultActionForIteration change"
proof (intro conjI impI)
  assume "Before change = JNull \<and> \<not> BeforeExplicit change
      \<and> (After change \<noteq> JNull \<or> AfterExplicit change)"
  then show "calculateChange sensitive change = Create"
    using calculateChange_Create by blast
next
  assume "After change = JNull \<and> \<not> AfterExplicit change
      \<and> (Before change \<noteq> JNull \<or> BeforeExplicit change)"
  then show "calculateChange sensitive change = Delete"
    using calculateChange_Delete by blast
next
  show "getDefaultActionForIteration change =
       (if Before change = JNull \<and> After change \<noteq> JNull then Create
        else if After change = JNull \<and> Before change \<noteq> JNull then Delete
        else NoOp)"
    using getDefaultActionForIteration_Create [of change]
      getDefaultActionForIteration_Delete [of change]
      getDefaultActionForIteration_otherwise [of change]
    by (cases "Before change = JNull"; cases "After change = JNull") simp_all
next
  show "getDefaultActionForIteration (change\<lparr>BeforeExplicit := b, AfterExplicit := a\<rparr>)
       = getDefaultActionForIteration change"
    by (rule getDefaultActionForIteration_flags)
qed

theorem Create_Delete_by_function_witness:
  "calculateChange boolMark
     \<lparr>BeforeExplicit = False, AfterExplicit = True,
      Before = JNull, After = JNull,
      Unknown = JBool False, BeforeSensitive = JBool False, AfterSensitive = JBool False,
      ReplacePaths = ([] :: json list list)\<rparr> = Create
   \<and> calculateChange boolMark
     \<lparr>BeforeExplicit = False, AfterExplicit = False,
      Before = JString ''old'', After = JNull,
      Unknown = JBool False, BeforeSensitive = JBool False, AfterSensitive = JBool False,
      ReplacePaths = ([] :: json list list)\<rparr> = Delete
   \<and> getDefaultActionForIteration
     \<lparr>BeforeExplicit = False, AfterExplicit = False,
      Before = JString ''old'', After = JNull,
      Unknown = JBool False, BeforeSensitive = JBool False, AfterSensitive = JBool False,
      ReplacePaths = ([] :: json list list)\<rparr> = Delete"
proof -
  note created = Create_Delete_by_function [where sensitive = boolMark
      and change = "\<lparr>BeforeExplicit = False, AfterExplicit = True,
        Before = JNull, After = JNull,
        Unknown = JBool False, BeforeSensitive = JBool False, AfterSensitive = JBool False,
        ReplacePaths = ([] :: json list list)\<rparr>", THEN conjunct1]
  note deleted = Create_Delete_by_function [where sensitive = boolMark
      and change = "\<lparr>BeforeExplicit = False, AfterExplicit = False,
        Before = JString ''old'', After = JNull,
        Unknown = JBool False, BeforeSensitive = JBool False, AfterSensitive = JBool False,
        ReplacePaths = ([] :: json list list)\<rparr>", THEN conjunct2]
  have first: "calculateChange boolMark
     \<lparr>BeforeExplicit = False, AfterExplicit = True,
      Before = JNull, After = JNull,
      Unknown = JBool False, BeforeSensitive = JBool False, AfterSensitive = JBool False,
      ReplacePaths = ([] :: json list list)\<rparr> = Create"
    by (rule created [THEN mp]) simp
  have second: "calculateChange boolMark
     \<lparr>BeforeExplicit = False, AfterExplicit = False,
      Before = JString ''old'', After = JNull,
      Unknown = JBool False, BeforeSensitive = JBool False, AfterSensitive = JBool False,
      ReplacePaths = ([] :: json list list)\<rparr> = Delete"
    by (rule deleted [THEN conjunct1, THEN mp]) simp
  have third: "getDefaultActionForIteration
     \<lparr>BeforeExplicit = False, AfterExplicit = False,
      Before = JString ''old'', After = JNull,
      Unknown = JBool False, BeforeSensitive = JBool False, AfterSensitive = JBool False,
      ReplacePaths = ([] :: json list list)\<rparr> = Delete"
    by (subst deleted [THEN conjunct2, THEN conjunct1]) simp
  show ?thesis
    using first second third by blast
qed

subsection \<open>Unknown after values\<close>

text \<open>
  \<^verbatim>\<open>calculateChange\<close> never reads the field \<^verbatim>\<open>Unknown\<close>. A Change whose
  after value is marked unknown and whose recorded before and after values are equal gets
  NoOp.
\<close>

theorem calculateChange_unknown_counterexample:
  "calculateChange boolMark
     \<lparr>BeforeExplicit = False, AfterExplicit = False,
      Before = JString ''a'', After = JString ''a'',
      Unknown = JBool True, BeforeSensitive = JBool False, AfterSensitive = JBool False,
      ReplacePaths = ([] :: json list list)\<rparr> = NoOp"
  by (simp add: calculateChange_def DeepEqual_def isBeforeSensitive_def
      isAfterSensitive_def)

text \<open>
  C3, as amended. The action of \<^verbatim>\<open>calculateChange\<close> is the same whatever the
  \<^verbatim>\<open>Unknown\<close> field holds, and it is NoOp exactly when the before and after
  values are deeply equal, the explicit flags agree and the sensitivity of the two sides
  agrees; an unknown after value does not raise the action by itself.
\<close>

theorem calculateChange_ignores_Unknown:
  "calculateChange sensitive (change\<lparr>Unknown := u\<rparr>) = calculateChange sensitive change
   \<and> (calculateChange sensitive (change\<lparr>Unknown := u\<rparr>) = NoOp \<longleftrightarrow>
        Before change = After change \<and> AfterExplicit change = BeforeExplicit change
        \<and> isAfterSensitive sensitive change = isBeforeSensitive sensitive change)"
proof -
  have same: "calculateChange sensitive (change\<lparr>Unknown := u\<rparr>)
      = calculateChange sensitive change"
    by (rule calculateChange_fields) simp_all
  show ?thesis
    unfolding same by (simp add: calculateChange_NoOp_iff)
qed

theorem calculateChange_ignores_Unknown_witness:
  "calculateChange boolMark
     (\<lparr>BeforeExplicit = False, AfterExplicit = False,
       Before = JString ''a'', After = JString ''b'',
       Unknown = JBool False, BeforeSensitive = JBool False, AfterSensitive = JBool False,
       ReplacePaths = ([] :: json list list)\<rparr>\<lparr>Unknown := JBool True\<rparr>)
     = calculateChange boolMark
       \<lparr>BeforeExplicit = False, AfterExplicit = False,
        Before = JString ''a'', After = JString ''b'',
        Unknown = JBool False, BeforeSensitive = JBool False, AfterSensitive = JBool False,
        ReplacePaths = ([] :: json list list)\<rparr>"
  by (rule conjunct1 [OF calculateChange_ignores_Unknown])

subsection \<open>Arrays are compared in order\<close>




subsection \<open>Forced replacement\<close>

text \<open>
  A Change between two different values with a replace path recorded for the attribute
  gets the action Update from \<^verbatim>\<open>calculateChange\<close>.
\<close>

theorem calculateChange_replace_counterexample:
  "calculateChange boolMark
     \<lparr>BeforeExplicit = False, AfterExplicit = False,
      Before = JString ''a'', After = JString ''b'',
      Unknown = JBool False, BeforeSensitive = JBool False, AfterSensitive = JBool False,
      ReplacePaths = [[] :: json list]\<rparr> = Update"
  by (simp add: calculateChange_def DeepEqual_def isBeforeSensitive_def
      isAfterSensitive_def)

lemma calculateChange_present_differ:
  assumes "Before change \<noteq> JNull" and "After change \<noteq> JNull"
    and "Before change \<noteq> After change"
  shows "calculateChange sensitive change = Update"
  using assms by (simp add: calculateChange_def DeepEqual_def)

text \<open>
  C5, as amended. \<^verbatim>\<open>calculateChange\<close> yields only Create, Delete, NoOp or
  Update, never Replace, and does not consult \<^verbatim>\<open>ReplacePaths\<close>: its action is
  the same whatever the replace paths are. \<^verbatim>\<open>asDiff\<close> hands
  \<^verbatim>\<open>computed.NewDiff\<close> that action together with the boolean
  \<^verbatim>\<open>ReplacePaths.ForcesReplacement()\<close>, so a forced replacement is reported
  beside the action and not as the action. In particular a Change between two different
  values that are both present gets the action Update whatever its replace paths are.
\<close>

theorem asDiff_action_never_Replace:
  "calculateChange sensitive change \<in> {Create, Delete, NoOp, Update}
   \<and> calculateChange sensitive change \<noteq> Replace
   \<and> calculateChange sensitive (change\<lparr>ReplacePaths := paths\<rparr>)
       = calculateChange sensitive change
   \<and> asDiff NewDiff ForcesReplacement sensitive (change\<lparr>ReplacePaths := paths\<rparr>) renderer
       = NewDiff renderer (calculateChange sensitive change) (ForcesReplacement paths)
   \<and> (Before change \<noteq> JNull \<and> After change \<noteq> JNull \<and> Before change \<noteq> After change
      \<longrightarrow> calculateChange sensitive (change\<lparr>ReplacePaths := paths\<rparr>) = Update)"
proof -
  have range: "calculateChange sensitive change \<in> {Create, Delete, NoOp, Update}"
    by (rule calculateChange_cases)
  have never: "calculateChange sensitive change \<noteq> Replace"
    using range by auto
  have same: "calculateChange sensitive (change\<lparr>ReplacePaths := paths\<rparr>)
      = calculateChange sensitive change"
    by (rule calculateChange_fields) simp_all
  have handed: "asDiff NewDiff ForcesReplacement sensitive (change\<lparr>ReplacePaths := paths\<rparr>)
        renderer
      = NewDiff renderer (calculateChange sensitive change) (ForcesReplacement paths)"
    using same by (simp add: asDiff_def)
  have update: "Before change \<noteq> JNull \<and> After change \<noteq> JNull \<and> Before change \<noteq> After change
      \<longrightarrow> calculateChange sensitive (change\<lparr>ReplacePaths := paths\<rparr>) = Update"
    unfolding same using calculateChange_present_differ by blast
  show ?thesis
    by (intro conjI) (fact range never same handed update)+
qed

theorem asDiff_action_never_Replace_witness:
  "calculateChange boolMark
     (\<lparr>BeforeExplicit = False, AfterExplicit = False,
       Before = JString ''a'', After = JString ''b'',
       Unknown = JBool False, BeforeSensitive = JBool False, AfterSensitive = JBool False,
       ReplacePaths = ([] :: json list list)\<rparr>\<lparr>ReplacePaths := [[]]\<rparr>) = Update"
proof -
  note forced = asDiff_action_never_Replace [where sensitive = boolMark and paths = "[[]]"
      and change = "\<lparr>BeforeExplicit = False, AfterExplicit = False,
        Before = JString ''a'', After = JString ''b'',
        Unknown = JBool False, BeforeSensitive = JBool False, AfterSensitive = JBool False,
        ReplacePaths = ([] :: json list list)\<rparr>",
      THEN conjunct2, THEN conjunct2, THEN conjunct2, THEN conjunct2]
  show ?thesis
    by (rule forced [THEN mp]) simp
qed

section \<open>Properties of AddVariablesToConfig\<close>

lemma addVariables_lookup:
  "addVariables TypeOf ToHCL zero variables vars name =
     (case vars name of
        Some v \<Rightarrow> Some v
      | None \<Rightarrow> map_option (newVariable TypeOf ToHCL zero name) (map_of variables name))"
proof (induction variables arbitrary: vars)
  case Nil
  then show ?case by (simp split: option.split)
next
  case (Cons entry variables)
  obtain n iv where entry: "entry = (n, iv)" by (cases entry)
  show ?case
    unfolding entry by (simp add: Cons.IH split: option.split)
qed

text \<open>
  C10. \<^verbatim>\<open>AddVariablesToConfig\<close> leaves every definition that was in the
  configuration as it was; under a name that had no definition it puts the definition built
  from the input value of that name, and nothing when there is no such input value; the
  closure it returns puts back the variable map of before the call, whatever happened to
  the configuration since, and called right away it gives back the configuration of
  before the call.
\<close>

theorem AddVariablesToConfig_frame_reset:
  assumes "AddVariablesToConfig TypeOf ToHCL zero config variables = (config', reset)"
  shows "(\<forall>name v. Variables (Module config) name = Some v
            \<longrightarrow> Variables (Module config') name = Some v)
     \<and> (\<forall>name. Variables (Module config) name = None
            \<longrightarrow> Variables (Module config') name
                = map_option (newVariable TypeOf ToHCL zero name) (map_of variables name))
     \<and> (\<forall>c. Variables (Module (reset c)) = Variables (Module config))
     \<and> reset config' = config"
  using assms
  by (auto simp add: AddVariablesToConfig_def Let_def addVariables_lookup)

theorem AddVariablesToConfig_frame_reset_witness:
  "Variables (Module (fst (AddVariablesToConfig id id () exampleConfig exampleInputs)))
       ''region''
     = Some \<lparr>Name = ''region'', Type = ''string'', ConstraintType = ''any'', DeclRange = 3\<rparr>
   \<and> Variables (Module (fst (AddVariablesToConfig id id () exampleConfig exampleInputs)))
       ''zone''
     = Some \<lparr>Name = ''zone'', Type = ''string'', ConstraintType = ''string'',
             DeclRange = 11\<rparr>
   \<and> snd (AddVariablesToConfig id id () exampleConfig exampleInputs)
        (fst (AddVariablesToConfig id id () exampleConfig exampleInputs)) = exampleConfig"
proof -
  have run: "AddVariablesToConfig id id () exampleConfig exampleInputs
      = (fst (AddVariablesToConfig id id () exampleConfig exampleInputs),
         snd (AddVariablesToConfig id id () exampleConfig exampleInputs))"
    by simp
  have old: "Variables (Module exampleConfig) ''region''
      = Some \<lparr>Name = ''region'', Type = ''string'', ConstraintType = ''any'', DeclRange = 3\<rparr>"
    by (simp add: exampleConfig_def)
  have new: "Variables (Module exampleConfig) ''zone'' = None"
    by (simp add: exampleConfig_def)
  have entry: "map_option (newVariable id id () ''zone'') (map_of exampleInputs ''zone'')
      = Some \<lparr>Name = ''zone'', Type = ''string'', ConstraintType = ''string'',
              DeclRange = 11\<rparr>"
    by (simp add: exampleInputs_def newVariable_def)
  show ?thesis
    using AddVariablesToConfig_frame_reset [OF run] old new entry by simp
qed

section \<open>Properties of the test runner\<close>

subsection \<open>The loop under errors and interrupts\<close>



lemma Test_iteration_error_status:
  assumes merge: "\<forall>s. Merge s Error = Error"
    and step: "Test_iteration Merge runBlock NewState suiteConfig seen run fileStatus runner
      = Inr (Continue (run', fileStatus', runner'))"
    and err: "RunStatus run' = Error"
  shows "fileStatus' = Error"
  using step err merge
  by (auto simp add: Test_iteration_def skipRun_def executeRun_def Let_def
      split: if_splits option.splits prod.splits)

lemma Test_runs_from_error:
  assumes merge: "\<forall>s. Merge s Error = Error"
  shows "Test_runs Merge runBlock NewState suiteConfig seen i runs Error runner =
     Inr (map (\<lambda>r. r\<lparr>RunStatus := Skip\<rparr>) (take (passesBeforeCancel seen i runs) runs)
            @ drop (passesBeforeCancel seen i runs) runs,
          Error,
          runner\<lparr>Log := Log runner
            @ map (\<lambda>r. Reported (RunName r) Skip) (take (passesBeforeCancel seen i runs) runs)\<rparr>)"
proof (induction runs arbitrary: i runner)
  case Nil
  then show ?case by simp
next
  case (Cons run rest)
  show ?case
  proof (cases "Cancelled (seen i)")
    case True
    then show ?thesis
      using merge by (simp add: Test_iteration_def)
  next
    case False
    then have step: "Test_iteration Merge runBlock NewState suiteConfig (seen i) run Error runner
        = Inr (skipRun run Error runner)"
      by (simp add: Test_iteration_def)
    show ?thesis
      using False by (simp add: step skipRun_def Cons.IH)
  qed
qed

text \<open>
  C6, as amended. When the pass for a run block ends with that run block in the status
  Error (its operation ended in an error, or the source of its module is the key of the
  main state), the file ends in the status Error and \<^verbatim>\<open>runner.run\<close> is called
  for none of the later run blocks: the log grows by reports only. The later run blocks up
  to the first pass at whose head a hard cancel is seen (all of them when none is seen) are
  marked Skip and printed; the run block of that pass and all after it are left exactly as
  they were, because the loop returns there. \<^verbatim>\<open>Merge\<close> is taken to give Error
  whenever Error is merged in.
\<close>

theorem Test_runs_error_skips_rest:
  assumes merge: "\<forall>s. Merge s Error = Error"
    and step: "Test_iteration Merge runBlock NewState suiteConfig (seen i) run fileStatus runner
      = Inr (Continue (run', fileStatus', runner'))"
    and err: "RunStatus run' = Error"
  shows "Test_runs Merge runBlock NewState suiteConfig seen i (run # rest) fileStatus runner =
     Inr (run' # map (\<lambda>r. r\<lparr>RunStatus := Skip\<rparr>)
                   (take (passesBeforeCancel seen (Suc i) rest) rest)
            @ drop (passesBeforeCancel seen (Suc i) rest) rest,
          Error,
          runner'\<lparr>Log := Log runner'
            @ map (\<lambda>r. Reported (RunName r) Skip)
                (take (passesBeforeCancel seen (Suc i) rest) rest)\<rparr>)"
proof -
  have status: "fileStatus' = Error"
    using Test_iteration_error_status [OF merge step err] .
  show ?thesis
    using merge by (simp add: step status Test_runs_from_error)
qed

lemma mergeWorst_Error: "\<forall>s. mergeWorst s Error = Error"
proof
  fix s
  show "mergeWorst s Error = Error"
    by (cases s) (simp_all add: mergeWorst_def)
qed

text \<open>
  A file of two run blocks: the first ends in an error and a hard cancel is seen at the
  head of the next pass. The second run block keeps the status Pending.
\<close>

theorem Test_runs_error_then_cancel_counterexample:
  "Test mergeWorst failingRun () () cancelledAfterFirst
     \<lparr>Runs = [firstRun, secondRun], FileStatus = Pending\<rparr> freshRunner
   = Inr (\<lparr>Runs = [firstRun\<lparr>RunStatus := Error\<rparr>, secondRun], FileStatus = Error\<rparr>,
          freshRunner\<lparr>Log := [Dispatched ''first'', Reported ''first'' Error]\<rparr>)
   \<and> RunStatus secondRun = Pending"
  by (simp add: Test_def Test_iteration_def executeRun_def failingRun_def
      cancelledAfterFirst_def freshRunner_def firstRun_def secondRun_def mergeWorst_def
      MainStateIdentifier_def)

theorem Test_runs_error_skips_rest_witness:
  "Test_runs mergeWorst failingRun () () cancelledAfterSecond 0
     [firstRun, secondRun, thirdRun] Skip freshRunner
   = Inr ([firstRun\<lparr>RunStatus := Error\<rparr>, secondRun\<lparr>RunStatus := Skip\<rparr>, thirdRun], Error,
          freshRunner\<lparr>Log := [Dispatched ''first'', Reported ''first'' Error,
                                Reported ''second'' Skip]\<rparr>)"
proof -
  have step: "Test_iteration mergeWorst failingRun () () (cancelledAfterSecond 0) firstRun Skip
      freshRunner
    = Inr (Continue (firstRun\<lparr>RunStatus := Error\<rparr>, Error,
         freshRunner\<lparr>Log := [Dispatched ''first'', Reported ''first'' Error]\<rparr>))"
    by (simp add: Test_iteration_def executeRun_def failingRun_def cancelledAfterSecond_def
        freshRunner_def firstRun_def mergeWorst_def MainStateIdentifier_def)
  have err: "RunStatus (firstRun\<lparr>RunStatus := Error\<rparr>) = Error"
    by simp
  have passes: "passesBeforeCancel cancelledAfterSecond (Suc 0) [secondRun, thirdRun] = Suc 0"
    by (simp add: cancelledAfterSecond_def)
  note run = Test_runs_error_skips_rest [where Merge = mergeWorst and seen = cancelledAfterSecond and i = 0
      and rest = "[secondRun, thirdRun]", OF mergeWorst_Error step err]
  show ?thesis
    unfolding run passes by (simp add: secondRun_def freshRunner_def)
qed


subsection \<open>Waiting under soft and hard cancellation\<close>















subsection \<open>Cleaning up under a hard cancel, and without one\<close>










end
